theory Spec2Isabelle
  imports Complex_Main "HOL-Library.AList" "HOL-Library.Sublist"
begin

section \<open>JavaScript values\<close>

text \<open>
  The page (\<^verbatim>\<open>src/app/page.tsx\<close>) handles the upstream response as untyped
  data: \<^verbatim>\<open>response.json()\<close> and \<^verbatim>\<open>JSON.parse\<close> both give a value of
  type \<^verbatim>\<open>any\<close>. The values are modelled as they exist at run time. A string is
  a list of characters, one per UTF-16 code unit. A number is the rational it denotes
  (a JSON number is a finite decimal; its rounding to a double is left out); only the
  test against zero is ever made on it. An object is the list of its own properties
  in insertion order.
\<close>

datatype jsval =
    JUndefined
  | JNull
  | JBool bool
  | JNum rat
  | JStr string
  | JArr "jsval list"
  | JObj "(string \<times> jsval) list"

text \<open>The conversion to boolean made by \<^verbatim>\<open>!v\<close>, \<^verbatim>\<open>a || b\<close> and \<^verbatim>\<open>a && b\<close>.\<close>

fun truthy :: "jsval \<Rightarrow> bool" where
  "truthy JUndefined = False"
| "truthy JNull = False"
| "truthy (JBool b) = b"
| "truthy (JNum q) = (q \<noteq> 0)"
| "truthy (JStr s) = (s \<noteq> [])"
| "truthy (JArr xs) = True"
| "truthy (JObj kv) = True"

fun nullish :: "jsval \<Rightarrow> bool" where
  "nullish JUndefined = True"
| "nullish JNull = True"
| "nullish v = False"

text \<open>
  \<^verbatim>\<open>v.k\<close> on a value that is neither \<^verbatim>\<open>null\<close> nor \<^verbatim>\<open>undefined\<close>, for
  the keys the page reads (\<^verbatim>\<open>candidates\<close>, \<^verbatim>\<open>content\<close>, \<^verbatim>\<open>parts\<close>,
  \<^verbatim>\<open>text\<close>, \<^verbatim>\<open>groundingMetadata\<close>, \<^verbatim>\<open>groundingAttributions\<close>,
  \<^verbatim>\<open>web\<close>, \<^verbatim>\<open>title\<close>, \<^verbatim>\<open>uri\<close>): none of them is a built-in property of a
  string, number, boolean or array, so only an object's own property can answer.
\<close>

fun member :: "jsval \<Rightarrow> string \<Rightarrow> jsval" where
  "member (JObj kv) k = (case map_of kv k of Some v \<Rightarrow> v | None \<Rightarrow> JUndefined)"
| "member v k = JUndefined"

text \<open>\<^verbatim>\<open>v?.k\<close>: the optional chain stops at \<^verbatim>\<open>null\<close> and \<^verbatim>\<open>undefined\<close>.\<close>

definition opt_member :: "jsval \<Rightarrow> string \<Rightarrow> jsval" where
  "opt_member v k = (if nullish v then JUndefined else member v k)"

text \<open>
  \<^verbatim>\<open>v?.[0]\<close>: the first element of an array, the first code unit of a string, the
  property \<^verbatim>\<open>"0"\<close> of an object, and \<^verbatim>\<open>undefined\<close> on anything else.
\<close>

fun first :: "jsval \<Rightarrow> jsval" where
  "first (JArr xs) = (case xs of [] \<Rightarrow> JUndefined | x # _ \<Rightarrow> x)"
| "first (JStr s) = (case s of [] \<Rightarrow> JUndefined | c # _ \<Rightarrow> JStr [c])"
| "first (JObj kv) = (case map_of kv ''0'' of Some v \<Rightarrow> v | None \<Rightarrow> JUndefined)"
| "first v = JUndefined"

definition opt_first :: "jsval \<Rightarrow> jsval" where
  "opt_first v = (if nullish v then JUndefined else first v)"

text \<open>\<^verbatim>\<open>v || ''\<close>.\<close>

definition or_empty :: "jsval \<Rightarrow> jsval" where
  "or_empty v = (if truthy v then v else JStr [])"

text \<open>Decimal digits of a number, as a template literal prints it.\<close>

function show_nat :: "nat \<Rightarrow> string" where
  "show_nat n =
     (if n < 10 then [''0123456789'' ! n]
      else show_nat (n div 10) @ [''0123456789'' ! (n mod 10)])"
  by pat_completeness auto
termination
  by (relation "measure id") auto

declare show_nat.simps [simp del]

text \<open>
  The own enumerable properties that \<^verbatim>\<open>{...v}\<close> copies: the properties of an
  object, the indexed elements of an array or of a string, and nothing of a primitive.
\<close>

fun spread :: "jsval \<Rightarrow> (string \<times> jsval) list" where
  "spread (JObj kv) = kv"
| "spread (JArr xs) = map (\<lambda>j. (show_nat j, xs ! j)) [0 ..< length xs]"
| "spread (JStr s) = map (\<lambda>j. (show_nat j, JStr [s ! j])) [0 ..< length s]"
| "spread v = []"

section \<open>The research client\<close>

text \<open>
  The two replacements of line 158: \<^verbatim>\<open>replace(/```json\n?/, "")\<close> removes the
  first occurrence of the marker, wherever it stands, with one line feed after it if
  there is one; \<^verbatim>\<open>replace(/```$/, "")\<close> removes three backquotes at the very end
  of the string.
\<close>

fun replace_open :: "string \<Rightarrow> string" where
  "replace_open [] = []"
| "replace_open (c # cs) =
     (if take 7 (c # cs) = ''```json''
      then (case drop 7 (c # cs) of
              [] \<Rightarrow> []
            | d # ds \<Rightarrow> if d = CHR 0x0A then ds else d # ds)
      else c # replace_open cs)"

definition replace_close :: "string \<Rightarrow> string" where
  "replace_close s =
     (if 3 \<le> length s \<and> drop (length s - 3) s = ''```''
      then take (length s - 3) s else s)"

definition strip_fence :: "string \<Rightarrow> string" where
  "strip_fence rawText = replace_close (replace_open rawText)"

text \<open>
  The stripping as the specification words it, for comparison: a marker is removed
  only where it leads the text (with the line feed after it), and three backquotes
  where they end it.
\<close>

definition strip_wrapper :: "string \<Rightarrow> string" where
  "strip_wrapper t =
     replace_close
       (if take 7 t = ''```json''
        then (case drop 7 t of [] \<Rightarrow> [] | d # ds \<Rightarrow> if d = CHR 0x0A then ds else d # ds)
        else t)"

text \<open>What the \<^verbatim>\<open>try\<close> block of \<^verbatim>\<open>startResearch\<close> can throw.\<close>

datatype failure =
    HttpError nat
  | EmptyResponse
  | MalformedContent
  | TypeError
  | Rejected string

record response =
  ok :: bool
  status :: nat
  json :: "string + jsval"

datatype fetch_outcome = NetworkError string | Response response

record request =
  url :: string
  http_method :: string
  headers :: "(string \<times> string) list"
  body :: string

text \<open>
  The platform the page runs on: the built-in \<^verbatim>\<open>JSON.parse\<close> (\<open>None\<close> when it
  throws) and \<^verbatim>\<open>JSON.stringify\<close>, the network behind \<^verbatim>\<open>fetch\<close>, and the
  message the engine gives a \<^verbatim>\<open>TypeError\<close>. \<^verbatim>\<open>response.json()\<close> is the field
  \<open>json\<close> of the response: \<open>Inl\<close> the message of its rejection, \<open>Inr\<close> the data.
\<close>

record runtime =
  JSON_parse :: "string \<Rightarrow> jsval option"
  JSON_stringify :: "jsval \<Rightarrow> string"
  fetch :: "request \<Rightarrow> fetch_outcome"
  TypeError_message :: string

definition systemPrompt :: "string \<Rightarrow> string" where
  "systemPrompt q =
     ''\<newline>      You are a world-class research assistant AI named Inquestor.'' @
     ''\<newline>      Your goal is to provide a concise, accurate, and well-sourced summary of a given topic using real-time web search.'' @
     ''\<newline>      1. You MUST perform a web search to gather up-to-date information.'' @
     ''\<newline>      2. Synthesize the information into a clear summary.'' @
     ''\<newline>      3. The user'' @ [CHR 0x27] @ ''s query is: \"'' @ q @ ''\"'' @
     ''\<newline>      4. Respond with ONLY a single JSON object with the keys \"topic\" and \"summary\".'' @
     ''\<newline>    ''"

definition apiUrl :: "string \<Rightarrow> string" where
  "apiUrl k =
     ''https://generativelanguage.googleapis.com/v1beta/models/gemini-2.5-flash-preview-05-20:generateContent?key='' @ k"

definition payload :: "string \<Rightarrow> jsval" where
  "payload q =
     JObj [(''contents'', JArr [JObj [(''parts'', JArr [JObj [(''text'', JStr (systemPrompt q))]])]]),
           (''tools'', JArr [JObj [(''google_search'', JObj [])]])]"

definition research_request :: "runtime \<Rightarrow> string \<Rightarrow> string \<Rightarrow> request" where
  "research_request rt k q =
     \<lparr>url = apiUrl k, http_method = ''POST'',
      headers = [(''Content-Type'', ''application/json'')],
      body = JSON_stringify rt (payload q)\<rparr>"

text \<open>Line 148: \<^verbatim>\<open>data.candidates?.[0]\<close>, for data that is not \<^verbatim>\<open>null\<close>.\<close>

definition candidate :: "jsval \<Rightarrow> jsval" where
  "candidate data = opt_first (member data ''candidates'')"

text \<open>Lines 154 to 163: the answer's text, and the parse inside the inner \<^verbatim>\<open>try\<close>.\<close>

definition rawText :: "jsval \<Rightarrow> jsval" where
  "rawText cand =
     or_empty (opt_member (opt_first (opt_member (member cand ''content'') ''parts'')) ''text'')"

text \<open>
  A \<^verbatim>\<open>rawText\<close> that is not a string has no \<^verbatim>\<open>replace\<close> method: the call throws
  inside the inner \<^verbatim>\<open>try\<close>, whose \<^verbatim>\<open>catch\<close> turns every exception into the
  same error.
\<close>

definition parsedContent :: "runtime \<Rightarrow> jsval \<Rightarrow> failure + jsval" where
  "parsedContent rt raw =
     (case raw of
        JStr t \<Rightarrow> (case JSON_parse rt (strip_fence t) of
                     None \<Rightarrow> Inl MalformedContent
                   | Some v \<Rightarrow> Inr v)
      | _ \<Rightarrow> Inl MalformedContent)"

text \<open>Lines 165 to 172: the callback of \<^verbatim>\<open>map\<close>, the one of \<^verbatim>\<open>filter\<close>, and the chain.\<close>

definition source_object :: "jsval \<Rightarrow> jsval \<Rightarrow> jsval" where
  "source_object t u = JObj [(''title'', t), (''uri'', u)]"

definition source_of :: "jsval \<Rightarrow> jsval" where
  "source_of attr =
     source_object (or_empty (opt_member (member attr ''web'') ''title''))
                   (or_empty (opt_member (member attr ''web'') ''uri''))"

text \<open>Reading \<^verbatim>\<open>attr.web\<close> throws when the attribution is \<^verbatim>\<open>null\<close>.\<close>

definition to_source :: "jsval \<Rightarrow> failure + jsval" where
  "to_source attr = (if nullish attr then Inl TypeError else Inr (source_of attr))"

fun map_sources :: "jsval list \<Rightarrow> failure + jsval list" where
  "map_sources [] = Inr []"
| "map_sources (attr # attrs) =
     (case to_source attr of
        Inl e \<Rightarrow> Inl e
      | Inr s \<Rightarrow> (case map_sources attrs of Inl e \<Rightarrow> Inl e | Inr ss \<Rightarrow> Inr (s # ss)))"

definition keep_source :: "jsval \<Rightarrow> bool" where
  "keep_source source = (truthy (member source ''uri'') \<and> truthy (member source ''title''))"

text \<open>
  \<^verbatim>\<open>groundingMetadata?.groundingAttributions\<close>; a value there that is neither
  an array nor \<^verbatim>\<open>null\<close> nor \<^verbatim>\<open>undefined\<close> has no \<^verbatim>\<open>map\<close> to call.
\<close>

definition groundingAttributions :: "jsval \<Rightarrow> jsval" where
  "groundingAttributions cand = opt_member (member cand ''groundingMetadata'') ''groundingAttributions''"

definition extract_sources :: "jsval \<Rightarrow> failure + jsval list" where
  "extract_sources cand =
     (if nullish (groundingAttributions cand) then Inr []
      else (case groundingAttributions cand of
              JArr attrs \<Rightarrow> (case map_sources attrs of
                               Inl e \<Rightarrow> Inl e
                             | Inr ss \<Rightarrow> Inr (filter keep_source ss))
            | _ \<Rightarrow> Inl TypeError))"

text \<open>
  The body of the outer \<^verbatim>\<open>try\<close> (lines 137 to 174), from the outcome of \<^verbatim>\<open>fetch\<close>
  to the argument of \<^verbatim>\<open>setResult\<close>.
\<close>

definition research :: "runtime \<Rightarrow> fetch_outcome \<Rightarrow> failure + (string \<times> jsval) list" where
  "research rt outcome =
     (case outcome of
        NetworkError m \<Rightarrow> Inl (Rejected m)
      | Response r \<Rightarrow>
          if \<not> ok r then Inl (HttpError (status r))
          else (case json r of
                  Inl m \<Rightarrow> Inl (Rejected m)
                | Inr data \<Rightarrow>
                    if nullish data then Inl TypeError
                    else if \<not> truthy (candidate data) then Inl EmptyResponse
                    else (case parsedContent rt (rawText (candidate data)) of
                            Inl e \<Rightarrow> Inl e
                          | Inr parsed \<Rightarrow>
                              (case extract_sources (candidate data) of
                                 Inl e \<Rightarrow> Inl e
                               | Inr ss \<Rightarrow>
                                   Inr (AList.update ''sources'' (JArr ss) (spread parsed))))))"

text \<open>The message of the thrown error, as the outer \<^verbatim>\<open>catch\<close> shows it.\<close>

fun message :: "runtime \<Rightarrow> failure \<Rightarrow> string" where
  "message rt (HttpError n) = ''API call failed! Status: '' @ show_nat n"
| "message rt EmptyResponse = ''No response from the model.''"
| "message rt MalformedContent = ''The model returned a weird format. Try again.''"
| "message rt TypeError = TypeError_message rt"
| "message rt (Rejected m) = m"

definition shown :: "string \<Rightarrow> string" where
  "shown m = (if m = [] then ''An unknown error happened.'' else m)"

section \<open>The view and its state\<close>

record app_state =
  query :: string
  apiKey :: string
  result :: "(string \<times> jsval) list option"
  loading :: bool
  error :: "string option"

text \<open>Lines 116 to 118: the state while the request is in flight.\<close>

definition dispatched :: "app_state \<Rightarrow> app_state" where
  "dispatched st = st\<lparr>loading := True, error := None, result := None\<rparr>"

text \<open>
  Lines 174 to 184: \<^verbatim>\<open>setResult\<close> at the end of the \<^verbatim>\<open>try\<close>, \<^verbatim>\<open>setError\<close> in
  the \<^verbatim>\<open>catch\<close>, and \<^verbatim>\<open>setLoading(false)\<close> in the \<^verbatim>\<open>finally\<close>.
\<close>

definition settled :: "runtime \<Rightarrow> failure + (string \<times> jsval) list \<Rightarrow> app_state \<Rightarrow> app_state" where
  "settled rt outcome st =
     (case outcome of
        Inr r \<Rightarrow> st\<lparr>result := Some r\<rparr>
      | Inl e \<Rightarrow> st\<lparr>error := Some (shown (message rt e))\<rparr>)\<lparr>loading := False\<rparr>"

text \<open>
  \<^verbatim>\<open>startResearch\<close> (lines 106 to 185): the state it leaves once the call has
  settled, and the requests it has sent to the network.
\<close>

definition startResearch :: "runtime \<Rightarrow> app_state \<Rightarrow> app_state \<times> request list" where
  "startResearch rt st =
     (if apiKey st = [] then (st\<lparr>error := Some ''Please provide an API key.''\<rparr>, [])
      else if query st = [] then (st\<lparr>error := Some ''Please enter a topic to research.''\<rparr>, [])
      else (let req = research_request rt (apiKey st) (query st)
            in (settled rt (research rt (fetch rt req)) (dispatched st), [req])))"

definition MissingInput :: "string set" where
  "MissingInput = {''Please provide an API key.'', ''Please enter a topic to research.''}"

text \<open>
  The white space of \<^verbatim>\<open>trim()\<close> and of the pattern \<^verbatim>\<open>\s\<close>, among the
  code units below 256: tab, line feed, vertical tab, form feed, carriage return,
  space and the no-break space.
\<close>

definition is_space :: "char \<Rightarrow> bool" where
  "is_space c = (c \<in> {CHR 0x09, CHR 0x0A, CHR 0x0B, CHR 0x0C, CHR 0x0D, CHR 0x20, CHR 0xA0})"

definition trim :: "string \<Rightarrow> string" where
  "trim s = rev (dropWhile is_space (rev (dropWhile is_space s)))"

text \<open>Line 297: the \<^verbatim>\<open>disabled\<close> attribute of the submit button.\<close>

definition submit_disabled :: "app_state \<Rightarrow> bool" where
  "submit_disabled st = (loading st \<or> trim (query st) = [] \<or> trim (apiKey st) = [])"

text \<open>A click reaches \<^verbatim>\<open>onClick\<close> only when the button is not disabled.\<close>

definition onClick :: "runtime \<Rightarrow> app_state \<Rightarrow> app_state \<times> request list" where
  "onClick rt st = (if submit_disabled st then (st, []) else startResearch rt st)"

text \<open>
  Lines 281 to 289: the key handler of the topic field, which is disabled only while
  \<^verbatim>\<open>loading\<close> holds.
\<close>

definition onKeyDown :: "string \<Rightarrow> bool \<Rightarrow> runtime \<Rightarrow> app_state \<Rightarrow> app_state \<times> request list" where
  "onKeyDown key shiftKey rt st =
     (if loading st then (st, [])
      else if key = ''Enter'' \<and> \<not> shiftKey then startResearch rt st
      else (st, []))"

section \<open>The typewriter\<close>

text \<open>
  The component keeps the displayed text in React state and the index \<^verbatim>\<open>i\<close> in a
  variable of the effect's closure; \<open>ticking\<close> says that the interval is set.
\<close>

record typewriter =
  displayedText :: string
  i :: nat
  ticking :: bool

definition charAt :: "string \<Rightarrow> nat \<Rightarrow> string" where
  "charAt s k = (if k < length s then [s ! k] else [])"

text \<open>
  Lines 60 to 63: the effect clears the display and, for a text that is not empty,
  sets the counter to zero and starts the interval.
\<close>

definition start :: "string \<Rightarrow> typewriter" where
  "start txt = \<lparr>displayedText = [], i = 0, ticking = (txt \<noteq> [])\<rparr>"

text \<open>
  The updater \<^verbatim>\<open>prev => prev + text.charAt(i)\<close> of line 65. It is an arrow function
  that reads the variable \<^verbatim>\<open>i\<close> when it runs, so the value of \<^verbatim>\<open>i\<close> at that
  moment is its second argument here.
\<close>

definition updater :: "string \<Rightarrow> nat \<Rightarrow> string \<Rightarrow> string" where
  "updater txt i_now prev = prev @ charAt txt i_now"

text \<open>
  One run of the interval's callback (lines 64 to 69), with the render that follows
  it. \<^verbatim>\<open>setDisplayedText\<close> does not run the updater itself: React queues it and
  runs it while rendering, after the callback has returned and \<^verbatim>\<open>i++\<close> has been
  done; only when the component has no update pending does React run the updater at
  once, inside the call. \<open>at_call\<close> says which of the two happens at this tick.
\<close>

definition callback :: "bool \<Rightarrow> string \<Rightarrow> typewriter \<Rightarrow> typewriter" where
  "callback at_call txt st =
     (if i st < length txt
      then (if at_call
            then (let st1 = st\<lparr>displayedText := updater txt (i st) (displayedText st)\<rparr>
                  in st1\<lparr>i := i st1 + 1\<rparr>)
            else (let st1 = st\<lparr>i := i st + 1\<rparr>
                  in st1\<lparr>displayedText := updater txt (i st1) (displayedText st1)\<rparr>))
      else st\<lparr>ticking := False\<rparr>)"

text \<open>
  The state after \<open>n\<close> periods of the interval; \<open>sched k\<close> says whether React
  runs the updater of tick \<open>k\<close> inside the call. A cleared interval fires no more.
\<close>

fun run :: "(nat \<Rightarrow> bool) \<Rightarrow> string \<Rightarrow> nat \<Rightarrow> typewriter" where
  "run sched txt 0 = start txt"
| "run sched txt (Suc n) =
     (let st = run sched txt n
      in if ticking st then callback (sched n) txt st else st)"

section \<open>The PDF export\<close>

text \<open>The declared shape of a result (lines 11 to 20).\<close>

record Source =
  title :: string
  uri :: string

record ResearchResult =
  topic :: string
  summary :: string
  sources :: "Source list"

definition as_Source :: "jsval \<Rightarrow> Source option" where
  "as_Source v =
     (case (member v ''title'', member v ''uri'') of
        (JStr t, JStr u) \<Rightarrow> Some \<lparr>title = t, uri = u\<rparr>
      | _ \<Rightarrow> None)"

fun all_some :: "'a option list \<Rightarrow> 'a list option" where
  "all_some [] = Some []"
| "all_some (None # xs) = None"
| "all_some (Some x # xs) = (case all_some xs of None \<Rightarrow> None | Some ys \<Rightarrow> Some (x # ys))"

text \<open>The stored object read at its declared type, when it has that shape.\<close>

definition as_ResearchResult :: "(string \<times> jsval) list \<Rightarrow> ResearchResult option" where
  "as_ResearchResult kv =
     (case (map_of kv ''topic'', map_of kv ''summary'', map_of kv ''sources'') of
        (Some (JStr t), Some (JStr s), Some (JArr ss)) \<Rightarrow>
          (case all_some (map as_Source ss) of
             None \<Rightarrow> None
           | Some srcs \<Rightarrow> Some \<lparr>topic = t, summary = s, sources = srcs\<rparr>)
      | _ \<Rightarrow> None)"

text \<open>
  The calls the export makes on the document, in order (the interface
  \<^verbatim>\<open>CustomJsPDF\<close>, lines 33 to 44). Lengths are millimetres, as rationals.
\<close>

datatype text_arg = Line string | Lines "string list"

record text_options =
  align :: "string option"
  maxWidth :: "rat option"

datatype call =
    SetTextColor nat nat nat
  | SetFontSize nat
  | SetFont string string
  | Text text_arg rat rat text_options
  | TextWithLink string rat rat string
  | AddPage
  | Save string

record pdf =
  calls :: "call list"
  fontSize :: nat
  fontName :: string
  fontStyle :: string

text \<open>
  The loaded library: the page size of the document it makes and its two
  measurements, which depend on the font in force.
\<close>

record jsPDF =
  getWidth :: rat
  getHeight :: rat
  splitTextToSize :: "nat \<Rightarrow> string \<Rightarrow> string \<Rightarrow> string \<Rightarrow> rat \<Rightarrow> string list"
  getTextDimensions :: "nat \<Rightarrow> string \<Rightarrow> string \<Rightarrow> string \<Rightarrow> rat \<Rightarrow> rat"

definition new_pdf :: pdf where
  "new_pdf = \<lparr>calls = [], fontSize = 16, fontName = ''helvetica'', fontStyle = ''normal''\<rparr>"

definition setTextColor :: "nat \<Rightarrow> nat \<Rightarrow> nat \<Rightarrow> pdf \<Rightarrow> pdf" where
  "setTextColor r g b d = d\<lparr>calls := calls d @ [SetTextColor r g b]\<rparr>"

definition setFontSize :: "nat \<Rightarrow> pdf \<Rightarrow> pdf" where
  "setFontSize n d = d\<lparr>calls := calls d @ [SetFontSize n], fontSize := n\<rparr>"

definition setFont :: "string \<Rightarrow> string \<Rightarrow> pdf \<Rightarrow> pdf" where
  "setFont name style d = d\<lparr>calls := calls d @ [SetFont name style], fontName := name, fontStyle := style\<rparr>"

definition text_at :: "text_arg \<Rightarrow> rat \<Rightarrow> rat \<Rightarrow> text_options \<Rightarrow> pdf \<Rightarrow> pdf" where
  "text_at t x y opts d = d\<lparr>calls := calls d @ [Text t x y opts]\<rparr>"

definition textWithLink :: "string \<Rightarrow> rat \<Rightarrow> rat \<Rightarrow> string \<Rightarrow> pdf \<Rightarrow> pdf" where
  "textWithLink t x y u d = d\<lparr>calls := calls d @ [TextWithLink t x y u]\<rparr>"

definition addPage :: "pdf \<Rightarrow> pdf" where
  "addPage d = d\<lparr>calls := calls d @ [AddPage]\<rparr>"

definition save :: "string \<Rightarrow> pdf \<Rightarrow> pdf" where
  "save filename d = d\<lparr>calls := calls d @ [Save filename]\<rparr>"

definition split_lines :: "jsPDF \<Rightarrow> pdf \<Rightarrow> string \<Rightarrow> rat \<Rightarrow> string list" where
  "split_lines lib d t w = splitTextToSize lib (fontSize d) (fontName d) (fontStyle d) t w"

definition text_height :: "jsPDF \<Rightarrow> pdf \<Rightarrow> string \<Rightarrow> rat \<Rightarrow> rat" where
  "text_height lib d t w = getTextDimensions lib (fontSize d) (fontName d) (fontStyle d) t w"

definition margin :: rat where
  "margin = 20"

text \<open>
  The page-break test of lines 215 and 224: when the cursor plus the height asked for
  passes the bottom margin, a page is added and the cursor goes back to the top margin.
\<close>

definition break_if_needed :: "jsPDF \<Rightarrow> rat \<Rightarrow> rat \<times> pdf \<Rightarrow> rat \<times> pdf" where
  "break_if_needed lib need s =
     (case s of (yPosition, d) \<Rightarrow>
        if yPosition + need > getHeight lib - margin then (margin, addPage d)
        else (yPosition, d))"

text \<open>Lines 224 to 232: the body of \<^verbatim>\<open>forEach\<close> for one source.\<close>

definition write_source :: "jsPDF \<Rightarrow> Source \<Rightarrow> rat \<times> pdf \<Rightarrow> rat \<times> pdf" where
  "write_source lib source s =
     (case break_if_needed lib 12 s of (y1, d1) \<Rightarrow>
        let width = getWidth lib - margin * 2;
            d2 = setTextColor 0 0 0 d1;
            d3 = text_at (Line (title source)) margin y1 \<lparr>align = None, maxWidth = Some width\<rparr> d2;
            y2 = y1 + (text_height lib d3 (title source) width + 2);
            d4 = setTextColor 0 0 255 d3;
            d5 = textWithLink (uri source) margin y2 (uri source) d4
        in (y2 + 10, d5))"

fun write_sources :: "jsPDF \<Rightarrow> Source list \<Rightarrow> rat \<times> pdf \<Rightarrow> rat \<times> pdf" where
  "write_sources lib [] s = s"
| "write_sources lib (source # rest) s = write_sources lib rest (write_source lib source s)"

text \<open>Lines 214 to 234: the section of the sources.\<close>

definition sources_section :: "jsPDF \<Rightarrow> Source list \<Rightarrow> rat \<times> pdf \<Rightarrow> rat \<times> pdf" where
  "sources_section lib srcs s =
     (if srcs \<noteq> []
      then (case break_if_needed lib 10 s of (y1, d1) \<Rightarrow>
              let d2 = setFontSize 14 d1;
                  d3 = setFont ''helvetica'' ''bold'' d2;
                  d4 = text_at (Line ''Sources'') margin y1 \<lparr>align = None, maxWidth = None\<rparr> d3;
                  d5 = setFontSize 10 d4;
                  d6 = setFont ''helvetica'' ''normal'' d5
              in write_sources lib srcs (y1 + 8, d6))
      else s)"

text \<open>Lines 202 to 212: the heading and the summary.\<close>

definition heading_and_summary :: "jsPDF \<Rightarrow> ResearchResult \<Rightarrow> rat \<times> pdf" where
  "heading_and_summary lib r =
     (let pageWidth = getWidth lib;
          width = pageWidth - margin * 2;
          d1 = setTextColor 0 0 0 new_pdf;
          d2 = setFontSize 20 d1;
          d3 = setFont ''helvetica'' ''bold'' d2;
          d4 = text_at (Line (topic r)) (pageWidth / 2) margin \<lparr>align = Some ''center'', maxWidth = Some width\<rparr> d3;
          y1 = margin + (of_nat (length (split_lines lib d4 (topic r) width) * 10) + 10);
          d5 = setFontSize 12 d4;
          d6 = setFont ''helvetica'' ''normal'' d5;
          summaryLines = split_lines lib d6 (summary r) width;
          d7 = text_at (Lines summaryLines) margin y1 \<lparr>align = None, maxWidth = None\<rparr> d6
      in (y1 + (of_nat (length summaryLines * 7) + 10), d7))"

text \<open>Line 236: every white-space character of the topic becomes an underscore.\<close>

definition filename :: "string \<Rightarrow> string" where
  "filename t = map (\<lambda>c. if is_space c then CHR ''_'' else c) t @ ''.pdf''"

text \<open>Lines 195 to 236: the document, for a result of the declared shape.\<close>

definition exportToPdf :: "jsPDF \<Rightarrow> ResearchResult \<Rightarrow> pdf" where
  "exportToPdf lib r =
     save (filename (topic r))
       (snd (sources_section lib (sources r) (heading_and_summary lib r)))"

text \<open>
  Reading a document back from its calls. The heading of the section is the only
  single line written without options; the title of a source is the only one written
  with a width and no alignment; its link is the only \<^verbatim>\<open>textWithLink\<close>.
\<close>

fun section_heading :: "call \<Rightarrow> bool" where
  "section_heading (Text (Line t) x y opts) =
     (t = ''Sources'' \<and> align opts = None \<and> maxWidth opts = None)"
| "section_heading c = False"

datatype written = Title string | Link string string

fun written_by :: "call \<Rightarrow> written list" where
  "written_by (Text (Line t) x y opts) =
     (if align opts = None \<and> maxWidth opts \<noteq> None then [Title t] else [])"
| "written_by (TextWithLink t x y u) = [Link t u]"
| "written_by c = []"

definition entries :: "call list \<Rightarrow> written list" where
  "entries cs = concat (map written_by cs)"

text \<open>
  A reader of the calls that watches the page breaks. \<open>Clean fresh\<close> holds so far,
  with \<open>fresh\<close> saying that a page has been added and nothing written on it yet.
  The heading of the section asks for 10 mm and the title of a source for 12 mm:
  each must be written at the top margin when the page is fresh, and where its
  height still fits above the bottom margin otherwise. A page is added only to be
  written on: never twice in a row.
\<close>

datatype reading = Clean bool | Violated

fun read_call :: "jsPDF \<Rightarrow> reading \<Rightarrow> call \<Rightarrow> reading" where
  "read_call lib Violated c = Violated"
| "read_call lib (Clean fresh) AddPage = (if fresh then Violated else Clean True)"
| "read_call lib (Clean fresh) (Text (Line t) x y opts) =
     (if align opts \<noteq> None then Clean fresh
      else if (if fresh then y = margin
               else y + (case maxWidth opts of None \<Rightarrow> 10 | Some w \<Rightarrow> 12) \<le> getHeight lib - margin)
           then Clean False
           else Violated)"
| "read_call lib (Clean fresh) c = Clean fresh"

definition breaks_before_writes :: "jsPDF \<Rightarrow> call list \<Rightarrow> bool" where
  "breaks_before_writes lib cs = (foldl (read_call lib) (Clean False) cs = Clean False)"

text \<open>
  What \<^verbatim>\<open>downloadPdf\<close> leaves behind: no document, the calls made on a saved
  document, or a stored object that is not of the declared shape, which reaches the
  library with arguments outside its declared interface and is not followed further.
\<close>

datatype export = NoDocument | Saved "call list" | NotAResearchResult

text \<open>
  Lines 187 to 193: \<open>window.jspdf\<close> is \<open>None\<close> while the script has not loaded.
\<close>

definition downloadPdf :: "jsPDF option \<Rightarrow> app_state \<Rightarrow> app_state \<times> export" where
  "downloadPdf jspdfModule st =
     (case (result st, jspdfModule) of
        (Some r, Some lib) \<Rightarrow>
          (case as_ResearchResult r of
             Some rr \<Rightarrow> (st, Saved (calls (exportToPdf lib rr)))
           | None \<Rightarrow> (st, NotAResearchResult))
      | _ \<Rightarrow>
          (st\<lparr>error := Some ''Can't download PDF yet. The PDF library might still be loading.''\<rparr>,
           NoDocument))"

section \<open>Sample inputs\<close>

text \<open>
  A platform for the examples: \<^verbatim>\<open>JSON.parse\<close> by the table of the texts an
  example uses (with the value each denotes; no other text in an example is JSON), and
  a network that answers every request with the one outcome given. The text of the
  request body plays no part in any example.
\<close>

definition mock :: "(string \<times> jsval) list \<Rightarrow> fetch_outcome \<Rightarrow> runtime" where
  "mock parses outcome =
     \<lparr>JSON_parse = map_of parses, JSON_stringify = (\<lambda>v. ''{}''),
      fetch = (\<lambda>req. outcome), TypeError_message = ''TypeError''\<rparr>"

text \<open>A response with status 200 whose body is the given data.\<close>

definition ok_response :: "jsval \<Rightarrow> fetch_outcome" where
  "ok_response data = Response \<lparr>ok = True, status = 200, json = Inr data\<rparr>"

text \<open>
  The data of a response with one candidate: its answer text, and the other properties
  of the candidate (its grounding metadata, when it has some).
\<close>

definition answer :: "string \<Rightarrow> (string \<times> jsval) list \<Rightarrow> jsval" where
  "answer t others =
     JObj [(''candidates'',
            JArr [JObj ((''content'', JObj [(''parts'', JArr [JObj [(''text'', JStr t)]])]) # others)])]"

definition grounded :: "jsval list \<Rightarrow> (string \<times> jsval) list" where
  "grounded attrs = [(''groundingMetadata'', JObj [(''groundingAttributions'', JArr attrs)])]"

definition form :: "string \<Rightarrow> string \<Rightarrow> app_state" where
  "form k q = \<lparr>query = q, apiKey = k, result = None, loading = False, error = None\<rparr>"

text \<open>A state of the page that shows the result of an earlier call.\<close>

definition showing :: "string \<Rightarrow> string \<Rightarrow> (string \<times> jsval) list \<Rightarrow> app_state" where
  "showing k q r = \<lparr>query = q, apiKey = k, result = Some r, loading = False, error = None\<rparr>"

text \<open>A grounding attribution with the given properties of its \<^verbatim>\<open>web\<close> record.\<close>

definition attribution :: "(string \<times> jsval) list \<Rightarrow> jsval" where
  "attribution web = JObj [(''web'', JObj web)]"

text \<open>A result of the declared shape with the given sources.\<close>

definition tides :: "Source list \<Rightarrow> ResearchResult" where
  "tides srcs = \<lparr>topic = ''Spring tides'', summary = ''Twice a month.'', sources = srcs\<rparr>"

text \<open>A page 100 mm high, with the same measurements as \<open>a4\<close> below.\<close>

definition short_page :: jsPDF where
  "short_page = \<lparr>getWidth = 210, getHeight = 100,
         splitTextToSize = (\<lambda>size name style t w. [t]),
         getTextDimensions = (\<lambda>size name style t w. 4)\<rparr>"

text \<open>An A4 page whose lines are never wrapped and are 4 mm high.\<close>

definition a4 :: jsPDF where
  "a4 = \<lparr>getWidth = 210, getHeight = 297,
         splitTextToSize = (\<lambda>size name style t w. [t]),
         getTextDimensions = (\<lambda>size name style t w. 4)\<rparr>"

section \<open>Facts about the research call\<close>

lemmas research_defs =
  candidate_def rawText_def opt_member_def opt_first_def or_empty_def
  strip_fence_def replace_close_def
  extract_sources_def groundingAttributions_def to_source_def source_of_def
  source_object_def keep_source_def research_request_def

lemma trim_blank: "list_all is_space s \<Longrightarrow> trim s = []"
  by (auto simp: trim_def list_all_iff dest: set_dropWhileD)

lemma research_Inr:
  "research rt outcome = Inr r \<longleftrightarrow>
     (\<exists>resp data t parsed ss.
        outcome = Response resp \<and> ok resp \<and> json resp = Inr data \<and> \<not> nullish data
        \<and> truthy (candidate data) \<and> rawText (candidate data) = JStr t
        \<and> JSON_parse rt (strip_fence t) = Some parsed
        \<and> extract_sources (candidate data) = Inr ss
        \<and> r = AList.update ''sources'' (JArr ss) (spread parsed))"
  by (auto simp: research_def parsedContent_def
           split: fetch_outcome.splits sum.splits jsval.splits option.splits if_splits)

lemma settled_fields:
  "result (settled rt outcome (dispatched st)) = (case outcome of Inr r \<Rightarrow> Some r | Inl e \<Rightarrow> None)"
  "error (settled rt outcome (dispatched st)) = (case outcome of Inr r \<Rightarrow> None | Inl e \<Rightarrow> Some (shown (message rt e)))"
  "loading (settled rt outcome (dispatched st)) = False"
  "query (settled rt outcome (dispatched st)) = query st"
  "apiKey (settled rt outcome (dispatched st)) = apiKey st"
  by (auto simp: settled_def dispatched_def split: sum.splits)

lemma startResearch_dispatched:
  "apiKey st \<noteq> [] \<Longrightarrow> query st \<noteq> [] \<Longrightarrow>
   startResearch rt st =
     (settled rt (research rt (fetch rt (research_request rt (apiKey st) (query st)))) (dispatched st),
      [research_request rt (apiKey st) (query st)])"
  by (simp add: startResearch_def Let_def)

lemma shown_nonempty: "shown m \<noteq> []"
  by (simp add: shown_def)

lemma map_sources_failure: "map_sources attrs = Inl e \<Longrightarrow> e = TypeError"
  by (induction attrs arbitrary: e) (auto simp: to_source_def split: sum.splits if_splits)

lemma extract_sources_failure: "extract_sources cand = Inl e \<Longrightarrow> e = TypeError"
  by (auto simp: extract_sources_def split: if_splits jsval.splits sum.splits
           dest: map_sources_failure)

lemma map_sources_total:
  "\<forall>a \<in> set attrs. \<not> nullish a \<Longrightarrow> map_sources attrs = Inr (map source_of attrs)"
  by (induction attrs) (simp_all add: to_source_def)

lemma truthy_or_empty: "truthy (or_empty v) \<longleftrightarrow> or_empty v \<noteq> JStr []"
  by (cases v) (auto simp: or_empty_def)

lemma keep_source_of:
  "keep_source (source_of a) \<longleftrightarrow>
     member (source_of a) ''title'' \<noteq> JStr [] \<and> member (source_of a) ''uri'' \<noteq> JStr []"
  by (auto simp: keep_source_def source_of_def source_object_def truthy_or_empty)

lemma strip_fence_wrapped: "strip_fence (''```json'' @ [CHR 0x0A] @ inner @ ''```'') = inner"
  by (simp add: strip_fence_def replace_close_def)

lemma strip_fence_leading: "take 7 t = ''```json'' \<Longrightarrow> strip_fence t = strip_wrapper t"
  by (cases t) (simp_all add: strip_fence_def strip_wrapper_def)

section \<open>Facts about the PDF export\<close>

lemmas pdf_calls =
  setTextColor_def setFontSize_def setFont_def text_at_def textWithLink_def addPage_def save_def

lemma entries_append: "entries (xs @ ys) = entries xs @ entries ys"
  by (simp add: entries_def)

lemma write_source_appends:
  "prefix (calls d) (calls (snd (write_source lib src (y, d))))"
  by (simp add: write_source_def break_if_needed_def pdf_calls Let_def)

lemma write_source_entries:
  "entries (calls (snd (write_source lib src (y, d)))) =
     entries (calls d) @ [Title (title src), Link (uri src) (uri src)]"
  by (simp add: write_source_def break_if_needed_def pdf_calls Let_def entries_def)

lemma write_source_heading:
  "filter section_heading (calls (snd (write_source lib src (y, d)))) =
     filter section_heading (calls d)"
  by (simp add: write_source_def break_if_needed_def pdf_calls Let_def)

lemma write_source_reading:
  "foldl (read_call lib) s0 (calls d) = Clean False \<Longrightarrow>
   foldl (read_call lib) s0 (calls (snd (write_source lib src (y, d)))) = Clean False"
  by (simp add: write_source_def break_if_needed_def pdf_calls Let_def)

lemma write_sources_appends:
  "prefix (calls d) (calls (snd (write_sources lib srcs (y, d))))"
proof (induction srcs arbitrary: y d)
  case Nil
  then show ?case by simp
next
  case (Cons src rest)
  obtain y' d' where step: "write_source lib src (y, d) = (y', d')"
    by (cases "write_source lib src (y, d)")
  with write_source_appends [of d lib src y] have "prefix (calls d) (calls d')"
    by simp
  also have "prefix (calls d') (calls (snd (write_sources lib rest (y', d'))))"
    by (rule Cons.IH)
  finally show ?case
    by (simp add: step)
qed

lemma write_sources_entries:
  "entries (calls (snd (write_sources lib srcs (y, d)))) =
     entries (calls d) @ concat (map (\<lambda>s. [Title (title s), Link (uri s) (uri s)]) srcs)"
proof (induction srcs arbitrary: y d)
  case Nil
  then show ?case by simp
next
  case (Cons src rest)
  obtain y' d' where step: "write_source lib src (y, d) = (y', d')"
    by (cases "write_source lib src (y, d)")
  with write_source_entries [of lib src y d] Cons.IH [of y' d'] show ?case
    by simp
qed

lemma write_sources_heading:
  "filter section_heading (calls (snd (write_sources lib srcs (y, d)))) =
     filter section_heading (calls d)"
proof (induction srcs arbitrary: y d)
  case Nil
  then show ?case by simp
next
  case (Cons src rest)
  obtain y' d' where step: "write_source lib src (y, d) = (y', d')"
    by (cases "write_source lib src (y, d)")
  with write_source_heading [of lib src y d] Cons.IH [of y' d'] show ?case
    by simp
qed

lemma write_sources_reading:
  "foldl (read_call lib) s0 (calls d) = Clean False \<Longrightarrow>
   foldl (read_call lib) s0 (calls (snd (write_sources lib srcs (y, d)))) = Clean False"
proof (induction srcs arbitrary: y d)
  case Nil
  then show ?case by simp
next
  case (Cons src rest)
  obtain y' d' where step: "write_source lib src (y, d) = (y', d')"
    by (cases "write_source lib src (y, d)")
  with write_source_reading [of lib s0 d src y] Cons.prems have "foldl (read_call lib) s0 (calls d') = Clean False"
    by simp
  from Cons.IH [OF this, of y'] step show ?case
    by simp
qed

lemma entries_simps:
  "entries [] = []"
  "entries (c # cs) = written_by c @ entries cs"
  by (simp_all add: entries_def)

lemma heading_and_summary_facts:
  "entries (calls (snd (heading_and_summary lib r))) = []"
  "filter section_heading (calls (snd (heading_and_summary lib r))) = []"
  "foldl (read_call lib) (Clean False) (calls (snd (heading_and_summary lib r))) = Clean False"
  "AddPage \<notin> set (calls (snd (heading_and_summary lib r)))"
  by (simp_all add: heading_and_summary_def new_pdf_def pdf_calls Let_def entries_simps)

lemma sources_section_appends:
  "prefix (calls d) (calls (snd (sources_section lib srcs (y, d))))"
proof (cases "srcs = []")
  case True
  then show ?thesis by (simp add: sources_section_def)
next
  case False
  show ?thesis
  proof (cases "getHeight lib - margin < y + 10")
    case True
    with False show ?thesis
      unfolding sources_section_def break_if_needed_def Let_def
      by (simp, intro prefix_order.trans [OF _ write_sources_appends]) (simp add: pdf_calls)
  next
    case no_break: False
    with False show ?thesis
      unfolding sources_section_def break_if_needed_def Let_def
      by (simp, intro prefix_order.trans [OF _ write_sources_appends]) (simp add: pdf_calls)
  qed
qed

lemma sources_section_entries:
  "entries (calls (snd (sources_section lib srcs (y, d)))) =
     entries (calls d) @ concat (map (\<lambda>s. [Title (title s), Link (uri s) (uri s)]) srcs)"
  by (simp add: sources_section_def break_if_needed_def pdf_calls Let_def
        write_sources_entries entries_append entries_simps)

lemma sources_section_heading:
  "length (filter section_heading (calls (snd (sources_section lib srcs (y, d))))) =
     length (filter section_heading (calls d)) + (if srcs = [] then 0 else 1)"
  by (simp add: sources_section_def break_if_needed_def pdf_calls Let_def
        write_sources_heading)

lemma sources_section_reading:
  "foldl (read_call lib) s0 (calls d) = Clean False \<Longrightarrow>
   foldl (read_call lib) s0 (calls (snd (sources_section lib srcs (y, d)))) = Clean False"
  by (simp add: sources_section_def break_if_needed_def pdf_calls Let_def
        write_sources_reading)

lemma breaks_before_writes_rejects:
  "\<not> breaks_before_writes a4 [Text (Line ''A'') 20 270 \<lparr>align = None, maxWidth = Some 170\<rparr>]"
  "\<not> breaks_before_writes a4 [AddPage, Text (Line ''A'') 20 30 \<lparr>align = None, maxWidth = Some 170\<rparr>]"
  by (simp_all add: breaks_before_writes_def a4_def margin_def)

section \<open>Facts about the typewriter\<close>

text \<open>
  Were every updater run inside the call that queues it, each tick would show the
  next prefix of the text, and the tick after the last character would clear the
  interval with the whole text on display.
\<close>

lemma charAt_take: "k \<le> length s \<Longrightarrow> take k s @ charAt s k = take (Suc k) s"
  by (simp add: charAt_def take_Suc_conv_app_nth)

lemma run_at_call:
  "txt \<noteq> [] \<Longrightarrow> n \<le> length txt \<Longrightarrow>
   run (\<lambda>k. True) txt n = \<lparr>displayedText = take n txt, i = n, ticking = True\<rparr>"
proof (induction n)
  case 0
  then show ?case by (simp add: start_def)
next
  case (Suc n)
  then show ?case
    by (simp add: callback_def updater_def Let_def charAt_take)
qed

lemma typewriter_at_call:
  assumes "txt \<noteq> []"
  shows "\<forall>n \<le> length txt. displayedText (run (\<lambda>k. True) txt n) = take n txt"
    and "run (\<lambda>k. True) txt (Suc (length txt)) = \<lparr>displayedText = txt, i = length txt, ticking = False\<rparr>"
  using assms by (simp_all add: run_at_call callback_def)

lemma run_queued:
  "2 \<le> length txt \<Longrightarrow> n < length txt \<Longrightarrow>
   run (\<lambda>k. k = 0) txt (Suc n) =
     \<lparr>displayedText = hd txt # take n (drop 2 txt), i = Suc n, ticking = True\<rparr>"
proof (induction n)
  case 0
  then show ?case
    by (cases "txt") (simp_all add: start_def callback_def updater_def Let_def charAt_def)
next
  case (Suc n)
  have "take n (drop 2 txt) @ charAt txt (Suc (Suc n)) = take (Suc n) (drop 2 txt)"
    by (simp add: charAt_def take_Suc_conv_app_nth add.commute)
  with Suc show ?case
    by (simp add: callback_def updater_def Let_def)
qed

text \<open>Were every updater queued, the first character would be the one left out.\<close>

lemma typewriter_all_queued:
  "map (\<lambda>n. displayedText (run (\<lambda>k. False) ''Hello'' n)) [0, 1, 2, 3, 4, 5, 6]
       = ['''', ''e'', ''el'', ''ell'', ''ello'', ''ello'', ''ello'']"
  by (simp add: eval_nat_numeral start_def callback_def updater_def charAt_def Let_def)

section \<open>Input validation\<close>

text \<open>
  C4. A submission whose credential or whose topic is the empty string sends no request
  and leaves one of the two missing-input messages as the error; the stored result is
  not touched.
\<close>

theorem missing_input_no_request:
  assumes "apiKey st = [] \<or> query st = []"
  shows "snd (startResearch rt st) = []
       \<and> (\<exists>m \<in> MissingInput. error (fst (startResearch rt st)) = Some m)
       \<and> result (fst (startResearch rt st)) = result st"
  using assms by (auto simp: startResearch_def MissingInput_def)

theorem missing_input_no_request_witness:
  "snd (startResearch (mock [] (NetworkError ''offline'')) (form '''' ''tides'')) = []
   \<and> error (fst (startResearch (mock [] (NetworkError ''offline'')) (form '''' ''tides'')))
       = Some ''Please provide an API key.''
   \<and> snd (startResearch (mock [] (NetworkError ''offline'')) (form ''key'' '''')) = []
   \<and> error (fst (startResearch (mock [] (NetworkError ''offline'')) (form ''key'' '''')))
       = Some ''Please enter a topic to research.''"
proof -
  have no_key: "apiKey (form '''' ''tides'') = [] \<or> query (form '''' ''tides'') = []"
    and no_topic: "apiKey (form ''key'' '''') = [] \<or> query (form ''key'' '''') = []"
    by (simp_all add: form_def)
  show ?thesis
    using missing_input_no_request [OF no_key, of "mock [] (NetworkError ''offline'')"]
          missing_input_no_request [OF no_topic, of "mock [] (NetworkError ''offline'')"]
    by (simp add: startResearch_def form_def)
qed

text \<open>
  C9. A credential and a topic that are not empty and consist of white space only:
  the submit button is disabled, so a click does nothing, but \<^verbatim>\<open>startResearch\<close>
  itself tests the raw strings, passes both guards and sends the request, and the
  Enter key on the topic field calls it whenever the page is not loading.
\<close>

theorem blank_inputs_pass_validation:
  assumes "query st \<noteq> []" and "apiKey st \<noteq> []"
    and "list_all is_space (query st)" and "list_all is_space (apiKey st)"
  shows "submit_disabled st
       \<and> onClick rt st = (st, [])
       \<and> startResearch rt st =
           (settled rt (research rt (fetch rt (research_request rt (apiKey st) (query st)))) (dispatched st),
            [research_request rt (apiKey st) (query st)])
       \<and> (\<not> loading st \<longrightarrow> onKeyDown ''Enter'' False rt st = startResearch rt st)"
  using assms
  by (simp add: submit_disabled_def onClick_def onKeyDown_def startResearch_def trim_blank Let_def)

theorem blank_inputs_pass_validation_witness:
  "submit_disabled (form '' '' ''  '')
   \<and> onClick (mock [] (NetworkError ''offline'')) (form '' '' ''  '') = (form '' '' ''  '', [])
   \<and> snd (onKeyDown ''Enter'' False (mock [] (NetworkError ''offline'')) (form '' '' ''  ''))
       = [research_request (mock [] (NetworkError ''offline'')) '' '' ''  '']
   \<and> error (fst (onKeyDown ''Enter'' False (mock [] (NetworkError ''offline'')) (form '' '' ''  '')))
       = Some ''offline''"
proof -
  have blank: "query (form '' '' ''  '') \<noteq> []" "apiKey (form '' '' ''  '') \<noteq> []"
      "list_all is_space (query (form '' '' ''  ''))" "list_all is_space (apiKey (form '' '' ''  ''))"
    by (simp_all add: form_def is_space_def)
  show ?thesis
    using blank_inputs_pass_validation [OF blank, of "mock [] (NetworkError ''offline'')"]
    by (simp add: form_def is_space_def settled_def dispatched_def research_def mock_def shown_def)
qed

section \<open>The stored result\<close>

text \<open>
  C10. When the answer parses, the stored result has the list derived from the
  grounding metadata under the key \<^verbatim>\<open>sources\<close>, whatever the parsed value holds
  there, and under every other key what the parsed value has (\<open>spread\<close> of an
  object is the list of its properties).
\<close>

theorem sources_overridden:
  assumes "apiKey st \<noteq> []" and "query st \<noteq> []"
    and "fetch rt (research_request rt (apiKey st) (query st)) = Response resp"
    and "ok resp" and "json resp = Inr data" and "\<not> nullish data"
    and "truthy (candidate data)" and "rawText (candidate data) = JStr t"
    and "JSON_parse rt (strip_fence t) = Some parsed"
    and "extract_sources (candidate data) = Inr ss"
  shows "\<exists>r. result (fst (startResearch rt st)) = Some r
           \<and> map_of r ''sources'' = Some (JArr ss)
           \<and> (\<forall>k. k \<noteq> ''sources'' \<longrightarrow> map_of r k = map_of (spread parsed) k)"
proof -
  let ?r = "AList.update ''sources'' (JArr ss) (spread parsed)"
  have "research rt (Response resp) = Inr ?r"
    using assms(4-10) by (subst research_Inr) blast
  then have "result (fst (startResearch rt st)) = Some ?r"
    using assms(1-3) by (simp add: startResearch_dispatched settled_fields)
  moreover have "map_of ?r ''sources'' = Some (JArr ss)"
    by (simp add: update_conv')
  moreover have "\<forall>k. k \<noteq> ''sources'' \<longrightarrow> map_of ?r k = map_of (spread parsed) k"
    by (simp add: update_conv')
  ultimately show ?thesis by blast
qed

theorem sources_overridden_witness:
  "\<exists>r. result (fst (startResearch
                     (mock [(''{\"topic\":\"T\",\"sources\":1}'',
                             JObj [(''topic'', JStr ''T''), (''sources'', JNum 1)])]
                           (ok_response (answer ''{\"topic\":\"T\",\"sources\":1}''
                              (grounded [attribution [(''title'', JStr ''A''), (''uri'', JStr ''u'')]]))))
                     (form ''key'' ''tides''))) = Some r
       \<and> map_of r ''sources'' = Some (JArr [source_object (JStr ''A'') (JStr ''u'')])
       \<and> map_of r ''topic'' = Some (JStr ''T'')"
proof -
  let ?t = "''{\"topic\":\"T\",\"sources\":1}''"
  let ?parsed = "JObj [(''topic'', JStr ''T''), (''sources'', JNum 1)]"
  let ?data = "answer ?t (grounded [attribution [(''title'', JStr ''A''), (''uri'', JStr ''u'')]])"
  let ?rt = "mock [(?t, ?parsed)] (ok_response ?data)"
  let ?resp = "\<lparr>ok = True, status = 200, json = Inr ?data\<rparr>"
  have a: "apiKey (form ''key'' ''tides'') \<noteq> []" "query (form ''key'' ''tides'') \<noteq> []"
    by (simp_all add: form_def)
  have b: "fetch ?rt (research_request ?rt (apiKey (form ''key'' ''tides'')) (query (form ''key'' ''tides''))) = Response ?resp"
    by (simp add: mock_def ok_response_def)
  have c: "ok ?resp" "json ?resp = Inr ?data" "\<not> nullish ?data" "truthy (candidate ?data)"
    by (simp_all add: research_defs form_def mock_def ok_response_def answer_def grounded_def attribution_def)
  have d: "rawText (candidate ?data) = JStr ?t"
    by (simp add: research_defs form_def mock_def ok_response_def answer_def grounded_def attribution_def)
  have e: "JSON_parse ?rt (strip_fence ?t) = Some ?parsed"
    by (simp add: research_defs form_def mock_def ok_response_def answer_def grounded_def attribution_def)
  have f: "extract_sources (candidate ?data) = Inr [source_object (JStr ''A'') (JStr ''u'')]"
    by (simp add: research_defs form_def mock_def ok_response_def answer_def grounded_def attribution_def)
  from sources_overridden [OF a b c d e f] obtain r where
    r: "result (fst (startResearch ?rt (form ''key'' ''tides''))) = Some r"
       "map_of r ''sources'' = Some (JArr [source_object (JStr ''A'') (JStr ''u'')])"
       "\<forall>k. k \<noteq> ''sources'' \<longrightarrow> map_of r k = map_of (spread ?parsed) k"
    by blast
  from r(3) have "map_of r ''topic'' = Some (JStr ''T'')" by simp
  with r(1,2) show ?thesis by blast
qed

text \<open>
  C2, as the code has it. For a submission with both inputs filled in, a result is stored
  exactly when the transport reports success, the body holds data with a first
  candidate, the answer's text (after the two replacements) is accepted by
  \<^verbatim>\<open>JSON.parse\<close> as a whole and the sources are extracted without an exception;
  the stored result is then the parsed value's properties with \<^verbatim>\<open>sources\<close> set.
  When any step fails nothing is stored and an error message that is not empty is
  shown. No step looks for the keys \<^verbatim>\<open>topic\<close> and \<^verbatim>\<open>summary\<close>.
\<close>

theorem stored_only_after_parse:
  assumes "apiKey st \<noteq> []" and "query st \<noteq> []"
  shows "(\<forall>r. result (fst (startResearch rt st)) = Some r \<longleftrightarrow>
            (\<exists>resp data t parsed ss.
               fetch rt (research_request rt (apiKey st) (query st)) = Response resp
               \<and> ok resp \<and> json resp = Inr data \<and> \<not> nullish data
               \<and> truthy (candidate data) \<and> rawText (candidate data) = JStr t
               \<and> JSON_parse rt (strip_fence t) = Some parsed
               \<and> extract_sources (candidate data) = Inr ss
               \<and> r = AList.update ''sources'' (JArr ss) (spread parsed)))
       \<and> (result (fst (startResearch rt st)) = None \<longrightarrow>
            (\<exists>m. m \<noteq> [] \<and> error (fst (startResearch rt st)) = Some m))"
proof -
  let ?out = "research rt (fetch rt (research_request rt (apiKey st) (query st)))"
  have res: "result (fst (startResearch rt st)) = (case ?out of Inr r \<Rightarrow> Some r | Inl e \<Rightarrow> None)"
    and err: "error (fst (startResearch rt st)) =
               (case ?out of Inr r \<Rightarrow> None | Inl e \<Rightarrow> Some (shown (message rt e)))"
    using assms by (simp_all add: startResearch_dispatched settled_fields)
  have "\<forall>r. result (fst (startResearch rt st)) = Some r \<longleftrightarrow> ?out = Inr r"
    by (simp add: res split: sum.splits)
  then have stored: "\<forall>r. result (fst (startResearch rt st)) = Some r \<longleftrightarrow>
            (\<exists>resp data t parsed ss.
               fetch rt (research_request rt (apiKey st) (query st)) = Response resp
               \<and> ok resp \<and> json resp = Inr data \<and> \<not> nullish data
               \<and> truthy (candidate data) \<and> rawText (candidate data) = JStr t
               \<and> JSON_parse rt (strip_fence t) = Some parsed
               \<and> extract_sources (candidate data) = Inr ss
               \<and> r = AList.update ''sources'' (JArr ss) (spread parsed))"
    unfolding research_Inr .
  have failed: "result (fst (startResearch rt st)) = None \<longrightarrow>
            (\<exists>m. m \<noteq> [] \<and> error (fst (startResearch rt st)) = Some m)"
    by (auto simp: res err shown_nonempty split: sum.splits)
  from stored failed show ?thesis ..
qed

theorem stored_only_after_parse_witness:
  "result (fst (startResearch
                 (mock [(''{\"topic\":\"Tides\"}'', JObj [(''topic'', JStr ''Tides'')])]
                       (ok_response (answer ''```json{\"topic\":\"Tides\"}```'' [])))
                 (form ''key'' ''tides'')))
     = Some [(''topic'', JStr ''Tides''), (''sources'', JArr [])]
   \<and> result (fst (startResearch
                 (mock [(''{\"topic\":\"Tides\"}'', JObj [(''topic'', JStr ''Tides'')])]
                       (ok_response (answer ''Tides rise twice a day.'' [])))
                 (form ''key'' ''tides''))) = None
   \<and> error (fst (startResearch
                 (mock [(''{\"topic\":\"Tides\"}'', JObj [(''topic'', JStr ''Tides'')])]
                       (ok_response (answer ''Tides rise twice a day.'' [])))
                 (form ''key'' ''tides''))) = Some ''The model returned a weird format. Try again.''"
proof -
  have filled: "apiKey (form ''key'' ''tides'') \<noteq> []" "query (form ''key'' ''tides'') \<noteq> []"
    by (simp_all add: form_def)
  show ?thesis
    using stored_only_after_parse
       [OF filled,
        of "mock [(''{\"topic\":\"Tides\"}'', JObj [(''topic'', JStr ''Tides'')])]
                 (ok_response (answer ''Tides rise twice a day.'' []))"]
    by (simp add: startResearch_def settled_def dispatched_def research_def parsedContent_def
        shown_def research_defs form_def mock_def ok_response_def answer_def)
qed

text \<open>
  The claim C2 as stated asks for an object with both keys. An answer that is the
  object \<^verbatim>\<open>{"topic":"Tides"}\<close> is stored as a result that has no summary, and no
  error is shown.
\<close>

theorem partial_result_stored:
  "result (fst (startResearch
                 (mock [(''{\"topic\":\"Tides\"}'', JObj [(''topic'', JStr ''Tides'')])]
                       (ok_response (answer ''{\"topic\":\"Tides\"}'' [])))
                 (form ''key'' ''tides'')))
     = Some [(''topic'', JStr ''Tides''), (''sources'', JArr [])]
   \<and> map_of [(''topic'', JStr ''Tides''), (''sources'', JArr [])] ''summary'' = None
   \<and> error (fst (startResearch
                 (mock [(''{\"topic\":\"Tides\"}'', JObj [(''topic'', JStr ''Tides'')])]
                       (ok_response (answer ''{\"topic\":\"Tides\"}'' [])))
                 (form ''key'' ''tides''))) = None"
  by (simp add: startResearch_def settled_def dispatched_def research_def parsedContent_def research_defs form_def mock_def ok_response_def answer_def)

section \<open>Errors and results in the state\<close>

text \<open>
  C3, as the code has it. A submission with both inputs filled in clears the error
  and the result before the request is sent; when the call fails (a response whose
  status is not a success included) it ends with the error set and no result; when
  it succeeds it ends with the result set and no error. After such a submission the
  two are never both set.
\<close>

theorem dispatched_attempt_exclusive:
  assumes "apiKey st \<noteq> []" and "query st \<noteq> []"
  shows "error (dispatched st) = None \<and> result (dispatched st) = None
       \<and> fst (startResearch rt st) =
           settled rt (research rt (fetch rt (research_request rt (apiKey st) (query st)))) (dispatched st)
       \<and> (\<forall>e. research rt (fetch rt (research_request rt (apiKey st) (query st))) = Inl e \<longrightarrow>
               error (fst (startResearch rt st)) = Some (shown (message rt e))
               \<and> shown (message rt e) \<noteq> []
               \<and> result (fst (startResearch rt st)) = None)
       \<and> (\<forall>resp. fetch rt (research_request rt (apiKey st) (query st)) = Response resp \<and> \<not> ok resp \<longrightarrow>
               error (fst (startResearch rt st)) = Some (''API call failed! Status: '' @ show_nat (status resp))
               \<and> result (fst (startResearch rt st)) = None)
       \<and> (\<forall>r. research rt (fetch rt (research_request rt (apiKey st) (query st))) = Inr r \<longrightarrow>
               result (fst (startResearch rt st)) = Some r
               \<and> error (fst (startResearch rt st)) = None)
       \<and> \<not> (error (fst (startResearch rt st)) \<noteq> None \<and> result (fst (startResearch rt st)) \<noteq> None)"
proof -
  let ?out = "research rt (fetch rt (research_request rt (apiKey st) (query st)))"
  have fin: "fst (startResearch rt st) = settled rt ?out (dispatched st)"
    using assms by (simp add: startResearch_dispatched)
  have res: "result (fst (startResearch rt st)) = (case ?out of Inr r \<Rightarrow> Some r | Inl e \<Rightarrow> None)"
    and err: "error (fst (startResearch rt st)) =
               (case ?out of Inr r \<Rightarrow> None | Inl e \<Rightarrow> Some (shown (message rt e)))"
    by (simp_all add: fin settled_fields)
  have http: "?out = Inl (HttpError (status resp))"
    if "fetch rt (research_request rt (apiKey st) (query st)) = Response resp" and "\<not> ok resp"
    for resp
    using that by (simp add: research_def)
  have cleared: "error (dispatched st) = None \<and> result (dispatched st) = None"
    by (simp add: dispatched_def)
  have failure: "\<forall>e. ?out = Inl e \<longrightarrow>
               error (fst (startResearch rt st)) = Some (shown (message rt e))
               \<and> shown (message rt e) \<noteq> []
               \<and> result (fst (startResearch rt st)) = None"
    by (simp add: res err shown_nonempty)
  have status: "\<forall>resp. fetch rt (research_request rt (apiKey st) (query st)) = Response resp \<and> \<not> ok resp \<longrightarrow>
               error (fst (startResearch rt st)) = Some (''API call failed! Status: '' @ show_nat (status resp))
               \<and> result (fst (startResearch rt st)) = None"
  proof (intro allI impI)
    fix resp
    assume "fetch rt (research_request rt (apiKey st) (query st)) = Response resp \<and> \<not> ok resp"
    then have "?out = Inl (HttpError (status resp))"
      using http by blast
    then show "error (fst (startResearch rt st)) = Some (''API call failed! Status: '' @ show_nat (status resp))
               \<and> result (fst (startResearch rt st)) = None"
      by (simp add: res err shown_def)
  qed
  have success: "\<forall>r. ?out = Inr r \<longrightarrow>
               result (fst (startResearch rt st)) = Some r
               \<and> error (fst (startResearch rt st)) = None"
    by (simp add: res err)
  have exclusive: "\<not> (error (fst (startResearch rt st)) \<noteq> None \<and> result (fst (startResearch rt st)) \<noteq> None)"
    by (simp add: res err split: sum.splits)
  from cleared fin failure status success exclusive show ?thesis
    by (intro conjI) (simp_all only: simp_thms)
qed

theorem dispatched_attempt_exclusive_witness:
  "error (fst (startResearch
          (mock [] (Response \<lparr>ok = False, status = 503, json = Inl ''no body''\<rparr>))
          (showing ''key'' ''tides'' [(''topic'', JStr ''Moon''), (''sources'', JArr [])])))
     = Some ''API call failed! Status: 503''
   \<and> result (fst (startResearch
          (mock [] (Response \<lparr>ok = False, status = 503, json = Inl ''no body''\<rparr>))
          (showing ''key'' ''tides'' [(''topic'', JStr ''Moon''), (''sources'', JArr [])])))
     = None"
proof -
  have filled:
    "apiKey (showing ''key'' ''tides'' [(''topic'', JStr ''Moon''), (''sources'', JArr [])]) \<noteq> []"
    "query (showing ''key'' ''tides'' [(''topic'', JStr ''Moon''), (''sources'', JArr [])]) \<noteq> []"
    by (simp_all add: showing_def)
  show ?thesis
    using dispatched_attempt_exclusive
       [OF filled,
        of "mock [] (Response \<lparr>ok = False, status = 503, json = Inl ''no body''\<rparr>)"]
    by (simp add: startResearch_def settled_def dispatched_def research_def shown_def
        showing_def mock_def show_nat.simps)
qed

text \<open>
  The claim C3 as stated covers every state. A submission without a credential
  returns at the first guard, which sets the error and leaves the result of the
  earlier call where it was: both are set.
\<close>

theorem error_beside_stale_result:
  "error (fst (startResearch (mock [] (NetworkError ''offline''))
                 (showing '''' ''tides'' [(''topic'', JStr ''Moon''), (''sources'', JArr [])])))
     = Some ''Please provide an API key.''
   \<and> result (fst (startResearch (mock [] (NetworkError ''offline''))
                 (showing '''' ''tides'' [(''topic'', JStr ''Moon''), (''sources'', JArr [])])))
     = Some [(''topic'', JStr ''Moon''), (''sources'', JArr [])]"
  by (simp add: startResearch_def showing_def)

section \<open>The fence around the answer\<close>

text \<open>
  C5, as the code has it. The first occurrence of the marker \<^verbatim>\<open>```json\<close> (with one
  line feed after it) is removed wherever it stands in the answer's text, and three
  backquotes at its very end; what is left is parsed as JSON, and the call fails
  with the malformed-content error exactly when that parse fails, in which case no
  result is stored. For a text wrapped in a leading marker and a closing fence what
  is left is the text between them, and for every text that starts with the marker
  the code strips what the specification's wording strips.
\<close>

theorem malformed_iff_parse_fails:
  assumes "ok resp" and "json resp = Inr data" and "\<not> nullish data"
    and "truthy (candidate data)" and "rawText (candidate data) = JStr t"
  shows "(research rt (Response resp) = Inl MalformedContent \<longleftrightarrow> JSON_parse rt (strip_fence t) = None)
       \<and> (JSON_parse rt (strip_fence t) = None \<longrightarrow>
            result (settled rt (research rt (Response resp)) (dispatched st)) = None
            \<and> error (settled rt (research rt (Response resp)) (dispatched st))
                = Some ''The model returned a weird format. Try again.'')
       \<and> strip_fence (''```json'' @ [CHR 0x0A] @ inner @ ''```'') = inner
       \<and> (take 7 t = ''```json'' \<longrightarrow> strip_fence t = strip_wrapper t)"
proof -
  have iff: "research rt (Response resp) = Inl MalformedContent \<longleftrightarrow> JSON_parse rt (strip_fence t) = None"
    using assms
    by (auto simp: research_def parsedContent_def split: option.splits sum.splits
             dest: extract_sources_failure)
  have shows_error: "JSON_parse rt (strip_fence t) = None \<longrightarrow>
            result (settled rt (research rt (Response resp)) (dispatched st)) = None
            \<and> error (settled rt (research rt (Response resp)) (dispatched st))
                = Some ''The model returned a weird format. Try again.''"
  proof
    assume "JSON_parse rt (strip_fence t) = None"
    with iff have "research rt (Response resp) = Inl MalformedContent" by simp
    then show "result (settled rt (research rt (Response resp)) (dispatched st)) = None
            \<and> error (settled rt (research rt (Response resp)) (dispatched st))
                = Some ''The model returned a weird format. Try again.''"
      by (simp add: settled_fields shown_def)
  qed
  from iff shows_error strip_fence_wrapped strip_fence_leading show ?thesis
    by blast
qed

theorem malformed_iff_parse_fails_witness:
  "research (mock [(''{}'', JObj [])] (NetworkError ''offline''))
      (ok_response (answer ''```json\<newline>{}```'' [])) = Inr [(''sources'', JArr [])]
   \<and> research (mock [(''{}'', JObj [])] (NetworkError ''offline''))
      (ok_response (answer ''Tides rise.'' [])) = Inl MalformedContent
   \<and> strip_fence ''```json\<newline>{}```'' = ''{}''"
proof -
  let ?data = "answer ''Tides rise.'' []"
  let ?resp = "\<lparr>ok = True, status = 200, json = Inr ?data\<rparr>"
  have h: "ok ?resp" "json ?resp = Inr ?data" "\<not> nullish ?data" "truthy (candidate ?data)"
          "rawText (candidate ?data) = JStr ''Tides rise.''"
    by (simp_all add: research_defs mock_def ok_response_def answer_def)
  show ?thesis
    using malformed_iff_parse_fails
       [OF h, of "mock [(''{}'', JObj [])] (NetworkError ''offline'')"]
    by (simp add: research_def parsedContent_def research_defs mock_def ok_response_def answer_def)
qed

text \<open>
  The claim C5 as stated strips a leading marker only. The text
  \<^verbatim>\<open>{"a":1```json}\<close> has no leading marker and is not JSON, yet the call
  succeeds: the marker in the middle is removed and \<^verbatim>\<open>{"a":1}\<close> is parsed.
\<close>

theorem unfenced_marker_removed:
  "strip_wrapper ''{\"a\":1```json}'' = ''{\"a\":1```json}''
   \<and> JSON_parse (mock [(''{\"a\":1}'', JObj [(''a'', JNum 1)])] (NetworkError ''offline''))
         ''{\"a\":1```json}'' = None
   \<and> research (mock [(''{\"a\":1}'', JObj [(''a'', JNum 1)])] (NetworkError ''offline''))
         (ok_response (answer ''{\"a\":1```json}'' []))
       = Inr [(''a'', JNum 1), (''sources'', JArr [])]"
  by (simp add: research_def parsedContent_def strip_wrapper_def research_defs mock_def ok_response_def answer_def)

section \<open>Citations\<close>

text \<open>
  C6. When the grounding attributions are an array of attribution records, every one
  of them is mapped to a source and exactly those whose title or URI is the empty
  string after the mapping are dropped; every source kept has a title and a URI that
  are not empty; and a candidate without grounding metadata gives the empty list, not
  an error.
\<close>

theorem citation_extraction:
  "(groundingAttributions cand = JArr attrs \<and> (\<forall>a \<in> set attrs. \<not> nullish a) \<longrightarrow>
      extract_sources cand =
        Inr (filter (\<lambda>s. member s ''title'' \<noteq> JStr [] \<and> member s ''uri'' \<noteq> JStr [])
               (map source_of attrs)))
   \<and> (\<forall>ss. extract_sources cand = Inr ss \<longrightarrow>
         (\<forall>s \<in> set ss. truthy (member s ''title'') \<and> truthy (member s ''uri'')))
   \<and> (nullish (member cand ''groundingMetadata'') \<longrightarrow> extract_sources cand = Inr [])"
proof (intro conjI impI allI)
  assume a: "groundingAttributions cand = JArr attrs \<and> (\<forall>a \<in> set attrs. \<not> nullish a)"
  have "filter keep_source (map source_of attrs) =
        filter (\<lambda>s. member s ''title'' \<noteq> JStr [] \<and> member s ''uri'' \<noteq> JStr []) (map source_of attrs)"
    by (rule filter_cong) (auto simp: keep_source_of)
  with a show "extract_sources cand =
        Inr (filter (\<lambda>s. member s ''title'' \<noteq> JStr [] \<and> member s ''uri'' \<noteq> JStr [])
               (map source_of attrs))"
    by (simp add: extract_sources_def map_sources_total)
next
  fix ss
  assume "extract_sources cand = Inr ss"
  then show "\<forall>s \<in> set ss. truthy (member s ''title'') \<and> truthy (member s ''uri'')"
    by (auto simp: extract_sources_def keep_source_def split: if_splits jsval.splits sum.splits)
next
  assume "nullish (member cand ''groundingMetadata'')"
  then show "extract_sources cand = Inr []"
    by (simp add: extract_sources_def groundingAttributions_def opt_member_def)
qed

theorem citation_extraction_witness:
  "extract_sources (candidate (answer ''{}''
      (grounded [attribution [(''title'', JStr ''Tide tables''), (''uri'', JStr ''https://a.example'')],
                 attribution [(''title'', JStr ''Moon'')]])))
     = Inr [source_object (JStr ''Tide tables'') (JStr ''https://a.example'')]
   \<and> extract_sources (candidate (answer ''{}'' [])) = Inr []
   \<and> research (mock [(''{}'', JObj [])] (NetworkError ''offline'')) (ok_response (answer ''{}'' []))
       = Inr [(''sources'', JArr [])]"
  using citation_extraction
     [of "candidate (answer ''{}''
            (grounded [attribution [(''title'', JStr ''Tide tables''), (''uri'', JStr ''https://a.example'')],
                       attribution [(''title'', JStr ''Moon'')]]))"
         "[attribution [(''title'', JStr ''Tide tables''), (''uri'', JStr ''https://a.example'')],
           attribution [(''title'', JStr ''Moon'')]]"]
  by (simp add: research_def parsedContent_def research_defs mock_def ok_response_def answer_def grounded_def attribution_def)

section \<open>The export to PDF\<close>

text \<open>
  C7, as the code has it. While the PDF library is not loaded, \<^verbatim>\<open>downloadPdf\<close>
  makes no document, sets the error to the message that the library is not ready,
  and leaves the result, the topic, the credential and the loading flag as they were.
\<close>

theorem export_unavailable:
  "downloadPdf None st =
     (st\<lparr>error := Some ''Can't download PDF yet. The PDF library might still be loading.''\<rparr>, NoDocument)
   \<and> result (fst (downloadPdf None st)) = result st
   \<and> query (fst (downloadPdf None st)) = query st
   \<and> apiKey (fst (downloadPdf None st)) = apiKey st
   \<and> loading (fst (downloadPdf None st)) = loading st"
  by (simp add: downloadPdf_def split: option.splits)

text \<open>
  The claim C7 as stated leaves the error unchanged. A page that shows a result and
  no error shows the error message after the call.
\<close>

theorem export_unavailable_sets_error:
  "error (showing ''key'' ''tides'' [(''topic'', JStr ''Tides''), (''sources'', JArr [])]) = None
   \<and> error (fst (downloadPdf None
        (showing ''key'' ''tides'' [(''topic'', JStr ''Tides''), (''sources'', JArr [])])))
      = Some ''Can't download PDF yet. The PDF library might still be loading.''"
  by (simp add: downloadPdf_def showing_def)

text \<open>
  C8. A result without sources gives the calls of the heading and the summary and
  the save, with no section heading and no added page. Otherwise the section heading
  is written once, and the titles and links written are those of the sources, each
  once, in the order of the list. The page-break test is made before the section
  heading and before each source: read in order, the calls write each of them at the
  top margin of a page just added, or where the height asked for still fits above
  the bottom margin, and what the heading and the summary wrote stays as the
  beginning of the calls.
\<close>

theorem sources_section_layout:
  "(sources r = [] \<longrightarrow>
      calls (exportToPdf lib r) =
        calls (snd (heading_and_summary lib r)) @ [Save (filename (topic r))]
      \<and> AddPage \<notin> set (calls (exportToPdf lib r)))
   \<and> length (filter section_heading (calls (exportToPdf lib r))) = (if sources r = [] then 0 else 1)
   \<and> entries (calls (exportToPdf lib r)) =
       concat (map (\<lambda>s. [Title (title s), Link (uri s) (uri s)]) (sources r))
   \<and> breaks_before_writes lib (calls (exportToPdf lib r))
   \<and> prefix (calls (snd (heading_and_summary lib r))) (calls (exportToPdf lib r))"
proof -
  obtain y d where hs: "heading_and_summary lib r = (y, d)"
    by (cases "heading_and_summary lib r")
  have d: "entries (calls d) = []" "filter section_heading (calls d) = []"
    "foldl (read_call lib) (Clean False) (calls d) = Clean False" "AddPage \<notin> set (calls d)"
    using heading_and_summary_facts [of lib r] by (simp_all add: hs)
  let ?sec = "calls (snd (sources_section lib (sources r) (y, d)))"
  have out: "calls (exportToPdf lib r) = ?sec @ [Save (filename (topic r))]"
    by (simp add: exportToPdf_def save_def hs)
  have none: "sources r = [] \<longrightarrow>
      calls (exportToPdf lib r) = calls (snd (heading_and_summary lib r)) @ [Save (filename (topic r))]
      \<and> AddPage \<notin> set (calls (exportToPdf lib r))"
    using d(4) by (simp add: out hs sources_section_def)
  have heading: "length (filter section_heading (calls (exportToPdf lib r))) = (if sources r = [] then 0 else 1)"
    using sources_section_heading [of lib "sources r" y d] by (simp add: out d)
  have listed: "entries (calls (exportToPdf lib r)) =
       concat (map (\<lambda>s. [Title (title s), Link (uri s) (uri s)]) (sources r))"
    using sources_section_entries [of lib "sources r" y d]
    by (simp add: out entries_append d entries_simps)
  have checked: "breaks_before_writes lib (calls (exportToPdf lib r))"
    using sources_section_reading [OF d(3), of "sources r" y]
    by (simp add: breaks_before_writes_def out)
  have kept: "prefix (calls (snd (heading_and_summary lib r))) (calls (exportToPdf lib r))"
    using sources_section_appends [of d lib "sources r" y] by (simp add: out hs)
  from none heading listed checked kept show ?thesis
    by (intro conjI)
qed

theorem sources_section_layout_witness:
  "calls (exportToPdf short_page (tides [\<lparr>title = ''A'', uri = ''https://a.example''\<rparr>,
                                         \<lparr>title = ''B'', uri = ''https://b.example''\<rparr>]))
     = [SetTextColor 0 0 0, SetFontSize 20, SetFont ''helvetica'' ''bold'',
        Text (Line ''Spring tides'') 105 20 \<lparr>align = Some ''center'', maxWidth = Some 170\<rparr>,
        SetFontSize 12, SetFont ''helvetica'' ''normal'',
        Text (Lines [''Twice a month.'']) 20 40 \<lparr>align = None, maxWidth = None\<rparr>,
        SetFontSize 14, SetFont ''helvetica'' ''bold'',
        Text (Line ''Sources'') 20 57 \<lparr>align = None, maxWidth = None\<rparr>,
        SetFontSize 10, SetFont ''helvetica'' ''normal'',
        SetTextColor 0 0 0,
        Text (Line ''A'') 20 65 \<lparr>align = None, maxWidth = Some 170\<rparr>,
        SetTextColor 0 0 255,
        TextWithLink ''https://a.example'' 20 71 ''https://a.example'',
        AddPage,
        SetTextColor 0 0 0,
        Text (Line ''B'') 20 20 \<lparr>align = None, maxWidth = Some 170\<rparr>,
        SetTextColor 0 0 255,
        TextWithLink ''https://b.example'' 20 26 ''https://b.example'',
        Save ''Spring_tides.pdf'']
   \<and> entries (calls (exportToPdf short_page (tides [\<lparr>title = ''A'', uri = ''https://a.example''\<rparr>,
                                         \<lparr>title = ''B'', uri = ''https://b.example''\<rparr>])))
     = [Title ''A'', Link ''https://a.example'' ''https://a.example'',
        Title ''B'', Link ''https://b.example'' ''https://b.example'']
   \<and> calls (exportToPdf a4 (tides []))
     = [SetTextColor 0 0 0, SetFontSize 20, SetFont ''helvetica'' ''bold'',
        Text (Line ''Spring tides'') 105 20 \<lparr>align = Some ''center'', maxWidth = Some 170\<rparr>,
        SetFontSize 12, SetFont ''helvetica'' ''normal'',
        Text (Lines [''Twice a month.'']) 20 40 \<lparr>align = None, maxWidth = None\<rparr>,
        Save ''Spring_tides.pdf'']"
  using sources_section_layout [of "tides [\<lparr>title = ''A'', uri = ''https://a.example''\<rparr>,
                                         \<lparr>title = ''B'', uri = ''https://b.example''\<rparr>]" short_page]
        sources_section_layout [of "tides []" a4]
  by (simp add: exportToPdf_def sources_section_def heading_and_summary_def write_source_def
        break_if_needed_def split_lines_def text_height_def new_pdf_def pdf_calls Let_def
        tides_def short_page_def a4_def margin_def filename_def is_space_def entries_simps)

section \<open>The typewriter's display\<close>

text \<open>
  C1 asks that every tick appends the next character and that the display ends as
  the whole text. The code does not do that under React's update queue, which runs
  the updater of the first tick inside the call and those of the later ticks at the
  render after the callback, when \<^verbatim>\<open>i++\<close> has been done: the updater of the
  second tick reads the third character, and so on. For every text of two characters
  or more the interval ends with the second character missing from the display.
\<close>

theorem typewriter_drops_second_character:
  assumes "2 \<le> length txt"
  shows "run (\<lambda>k. k = 0) txt (Suc (length txt)) =
           \<lparr>displayedText = hd txt # drop 2 txt, i = length txt, ticking = False\<rparr>
       \<and> hd txt # drop 2 txt \<noteq> txt"
proof -
  from assms obtain m where m: "length txt = Suc m" and "m < length txt"
    by (cases "length txt") auto
  with assms have "run (\<lambda>k. k = 0) txt (length txt) =
      \<lparr>displayedText = hd txt # take m (drop 2 txt), i = length txt, ticking = True\<rparr>"
    using run_queued [of "txt" m] by simp
  moreover have "take m (drop 2 txt) = drop 2 txt"
    using m by simp
  ultimately have "run (\<lambda>k. k = 0) txt (Suc (length txt)) =
           \<lparr>displayedText = hd txt # drop 2 txt, i = length txt, ticking = False\<rparr>"
    by (simp add: callback_def)
  moreover have "hd txt # drop 2 txt \<noteq> txt"
  proof
    assume "hd txt # drop 2 txt = txt"
    then have "length (hd txt # drop 2 txt) = length txt"
      by (rule arg_cong)
    with assms show False by simp
  qed
  ultimately show ?thesis by simp
qed

theorem typewriter_drops_second_character_witness:
  "displayedText (run (\<lambda>k. k = 0) ''Hello'' 6) = ''Hllo''
   \<and> ticking (run (\<lambda>k. k = 0) ''Hello'' 6) = False
   \<and> map (\<lambda>n. displayedText (run (\<lambda>k. k = 0) ''Hello'' n)) [0, 1, 2, 3, 4, 5, 6]
       = ['''', ''H'', ''Hl'', ''Hll'', ''Hllo'', ''Hllo'', ''Hllo'']"
proof -
  have long: "2 \<le> length ''Hello''" by simp
  show ?thesis
    using typewriter_drops_second_character [OF long]
    by (simp add: eval_nat_numeral start_def callback_def updater_def charAt_def Let_def)
qed

end
